theory Spec2Isabelle
  imports Main
begin

section \<open>The ANSI colour table printer (\<open>ansi_colors_v2.py\<close>)\<close>

text \<open>
  The repository holds one Python function, \<open>show_ansi_colors\<close>. It binds two
  dictionaries (colour name to SGR code, both strings), prints a banner, one line per
  foreground colour, one line per background colour, five combination lines and three
  usage notes. Its only effect is text written to standard output.

  Python strings are sequences of code points; every character of this program is
  ASCII, so a string is a \<^typ>\<open>char list\<close>. A dictionary literal is an association
  list in insertion order, which is the order \<open>.items()\<close> iterates in.
\<close>

subsection \<open>Characters the source writes with escapes\<close>

text \<open>
  In the source, \<open>'\033'\<close> in an ordinary (or f-) string is the escape control
  character, code 27; \<open>'\\'\<close> is one backslash, code 92; \<open>'\n'\<close> is the line feed,
  code 10.
\<close>

abbreviation ESC :: char where
  "ESC \<equiv> CHR 0x1B"

abbreviation BSL :: char where
  "BSL \<equiv> CHR 0x5C"

abbreviation NL :: char where
  "NL \<equiv> CHR 0x0A"

subsection \<open>Python primitives\<close>

text \<open>\<open>s.ljust(w)\<close>: \<open>s\<close> followed by spaces up to width \<open>w\<close>; \<open>s\<close> itself when it is
  already that long.\<close>

definition ljust :: "string \<Rightarrow> nat \<Rightarrow> string" where
  "ljust s w = s @ replicate (w - length s) CHR '' ''"

text \<open>The only exception the function can raise: a dictionary subscript with a missing
  key.\<close>

datatype error = KeyError string

definition getitem :: "(string \<times> string) list \<Rightarrow> string \<Rightarrow> error + string" where
  "getitem d k = (case map_of d k of None \<Rightarrow> Inl (KeyError k) | Some v \<Rightarrow> Inr v)"

subsection \<open>The function's frame\<close>

text \<open>
  The local variables that live across statements, and the text written to standard
  output so far. (\<open>reset\<close> is bound by the source and never read.)
\<close>

record frame =
  fg_colors :: "(string \<times> string) list"
  bg_colors :: "(string \<times> string) list"
  reset :: string
  stdout :: string

text \<open>\<open>print(s)\<close> writes \<open>s\<close> and a line feed.\<close>

definition py_print :: "string \<Rightarrow> frame \<Rightarrow> frame" where
  "py_print s f = f\<lparr>stdout := stdout f @ s @ [NL]\<rparr>"

text \<open>The three assignments that open the function body: the two dictionary literals
  and \<open>reset\<close>.\<close>

definition fg_colors_init :: "(string \<times> string) list" where
  "fg_colors_init =
     [(''Black'', ''30''),
      (''Red'', ''31''),
      (''Green'', ''32''),
      (''Yellow'', ''33''),
      (''Blue'', ''34''),
      (''Magenta'', ''35''),
      (''Cyan'', ''36''),
      (''White'', ''37''),
      (''Bright Black'', ''90''),
      (''Bright Red'', ''91''),
      (''Bright Green'', ''92''),
      (''Bright Yellow'', ''93''),
      (''Bright Blue'', ''94''),
      (''Bright Magenta'', ''95''),
      (''Bright Cyan'', ''96''),
      (''Bright White'', ''97'')]"

definition bg_colors_init :: "(string \<times> string) list" where
  "bg_colors_init =
     [(''Black'', ''40''),
      (''Red'', ''41''),
      (''Green'', ''42''),
      (''Yellow'', ''43''),
      (''Blue'', ''44''),
      (''Magenta'', ''45''),
      (''Cyan'', ''46''),
      (''White'', ''47''),
      (''Bright Black'', ''100''),
      (''Bright Red'', ''101''),
      (''Bright Green'', ''102''),
      (''Bright Yellow'', ''103''),
      (''Bright Blue'', ''104''),
      (''Bright Magenta'', ''105''),
      (''Bright Cyan'', ''106''),
      (''Bright White'', ''107'')]"

definition init_frame :: "string \<Rightarrow> frame" where
  "init_frame out =
     \<lparr>fg_colors = fg_colors_init,
      bg_colors = bg_colors_init,
      reset = ESC # ''[0m'',
      stdout = out\<rparr>"

subsection \<open>The three loops\<close>

text \<open>
  Foreground loop, \<^verbatim>\<open>for name, code in fg_colors.items()\<close>. The body is
  \<^verbatim>\<open>ansi_seq = f'\\033[{code}m'\<close>,
  \<^verbatim>\<open>colored_text = f'\033[{code}m{name.ljust(15)}\033[0m'\<close>,
  \<^verbatim>\<open>print(f"{colored_text} {ansi_seq.ljust(10)} Example text")\<close>;
  \<open>fg_line\<close> is the string it prints.
\<close>

definition fg_line :: "string \<Rightarrow> string \<Rightarrow> string" where
  "fg_line name code =
     (let ansi_seq = BSL # ''033['' @ code @ ''m'';
          colored_text = ESC # ''['' @ code @ ''m'' @ ljust name 15 @ ESC # ''[0m''
      in colored_text @ '' '' @ ljust ansi_seq 10 @ '' Example text'')"

definition fg_loop :: "frame \<Rightarrow> frame" where
  "fg_loop f = fold (\<lambda>(name, code). py_print (fg_line name code)) (fg_colors f) f"

text \<open>
  Background loop. The text colour is chosen by membership of the code string in a
  literal list,
  \<^verbatim>\<open>text_color = '97' if code in ['40', '41', '42', '43', '44', '45', '46', '100'] else '30'\<close>,
  and is emitted in an escape sequence of its own before the background sequence:
  \<^verbatim>\<open>colored_bg = f'\033[{text_color}m\033[{code}m{name.ljust(15)}\033[0m'\<close>.
\<close>

definition text_color :: "string \<Rightarrow> string" where
  "text_color code =
     (if code \<in> set [''40'', ''41'', ''42'', ''43'', ''44'', ''45'', ''46'', ''100'']
      then ''97'' else ''30'')"

definition bg_line :: "string \<Rightarrow> string \<Rightarrow> string" where
  "bg_line name code =
     (let ansi_seq = BSL # ''033['' @ code @ ''m'';
          colored_bg = ESC # ''['' @ text_color code @ ''m'' @ ESC # ''['' @ code @ ''m''
                       @ ljust name 15 @ ESC # ''[0m''
      in colored_bg @ '' '' @ ljust ansi_seq 10 @ '' Example text'')"

definition bg_loop :: "frame \<Rightarrow> frame" where
  "bg_loop f = fold (\<lambda>(name, code). py_print (bg_line name code)) (bg_colors f) f"

text \<open>
  Combination loop, \<^verbatim>\<open>for fg_name, bg_name in combinations\<close>. Both names are looked
  up by subscript, which raises \<open>KeyError\<close> on a missing key. In
  \<^verbatim>\<open>fg_name + " on " + bg_name.ljust(25)\<close> the method call binds tighter than
  \<open>+\<close>, so only the background name is padded.
\<close>

definition combinations :: "(string \<times> string) list" where
  "combinations =
     [(''Bright White'', ''Blue''),
      (''Yellow'', ''Bright Black''),
      (''Bright Cyan'', ''Magenta''),
      (''Bright Red'', ''Bright Yellow''),
      (''Black'', ''Bright White'')]"

definition comb_line :: "string \<Rightarrow> string \<Rightarrow> string \<Rightarrow> string \<Rightarrow> string" where
  "comb_line fg_name fg_code bg_name bg_code =
     (let ansi_seq = BSL # ''033['' @ fg_code @ '';'' @ bg_code @ ''m'';
          colored_text = ESC # ''['' @ fg_code @ '';'' @ bg_code @ ''m''
                         @ (fg_name @ '' on '' @ ljust bg_name 25) @ ESC # ''[0m''
      in colored_text @ '' '' @ ljust ansi_seq 15 @ '' Example text'')"

definition comb_entry :: "string \<Rightarrow> string \<Rightarrow> frame \<Rightarrow> error + frame" where
  "comb_entry fg_name bg_name f =
     (case getitem (fg_colors f) fg_name of
        Inl e \<Rightarrow> Inl e
      | Inr fg_code \<Rightarrow>
          (case getitem (bg_colors f) bg_name of
             Inl e \<Rightarrow> Inl e
           | Inr bg_code \<Rightarrow> Inr (py_print (comb_line fg_name fg_code bg_name bg_code) f)))"

fun comb_loop :: "(string \<times> string) list \<Rightarrow> frame \<Rightarrow> error + frame" where
  "comb_loop [] f = Inr f"
| "comb_loop ((fg_name, bg_name) # rest) f =
     (case comb_entry fg_name bg_name f of
        Inl e \<Rightarrow> Inl e
      | Inr f' \<Rightarrow> comb_loop rest f')"

subsection \<open>The function body\<close>

text \<open>
  The statements after the three initial assignments, in source order. A statement maps
  the frame to the next frame or to the exception it raises; a sequence of statements
  stops at the first exception. The list literal that the source binds to
  \<open>combinations\<close> just before the third loop is the constant of that name, so that
  assignment and the loop over it are one statement here.
\<close>

type_synonym stmt = "frame \<Rightarrow> error + frame"

definition pure_stmt :: "(frame \<Rightarrow> frame) \<Rightarrow> stmt" where
  "pure_stmt g f = Inr (g f)"

fun exec :: "stmt list \<Rightarrow> frame \<Rightarrow> error + frame" where
  "exec [] f = Inr f"
| "exec (s # ss) f = (case s f of Inl e \<Rightarrow> Inl e | Inr f' \<Rightarrow> exec ss f')"

definition body :: "stmt list" where
  "body =
     [pure_stmt (py_print (replicate 80 CHR ''='')),
      pure_stmt (py_print ''ANSI COLOR CODEMAP''),
      pure_stmt (py_print (replicate 80 CHR ''='')),
      pure_stmt (py_print (NL # ''FOREGROUND COLORS:'')),
      pure_stmt (py_print (replicate 40 CHR ''-'')),
      pure_stmt fg_loop,
      pure_stmt (py_print (NL # ''BACKGROUND COLORS:'')),
      pure_stmt (py_print (replicate 40 CHR ''-'')),
      pure_stmt bg_loop,
      pure_stmt (py_print (NL # ''COMBINATIONS (Foreground + Background):'')),
      pure_stmt (py_print (replicate 40 CHR ''-'')),
      comb_loop combinations,
      pure_stmt (py_print (NL # ''USAGE NOTES:'')),
      pure_stmt (py_print (replicate 40 CHR ''-'')),
      pure_stmt (py_print (''1. All ANSI sequences start with '' @ BSL # ''033[ and end with m'')),
      pure_stmt (py_print (''2. Separate multiple codes with semicolons (e.g., ''
                           @ BSL # ''033[31;44m)'')),
      pure_stmt (py_print (''3. Reset formatting with '' @ BSL # ''033[0m'')),
      pure_stmt (py_print (replicate 80 CHR ''=''))]"

text \<open>\<open>show_ansi_colors()\<close>, run with \<open>out\<close> already on standard output.\<close>

definition show_ansi_colors :: "string \<Rightarrow> error + frame" where
  "show_ansi_colors out = exec body (init_frame out)"

section \<open>Reading the output\<close>

text \<open>
  What follows is vocabulary for stating properties of the printed text; none of it is
  code of the program. The text on standard output is cut into lines at line feeds; a
  section's entries are the lines after its header line and the rule under it, up to
  the next empty line.
\<close>

fun split_lines :: "string \<Rightarrow> string list" where
  "split_lines [] = []"
| "split_lines (c # cs) =
     (if c = NL then [] # split_lines cs
      else (case split_lines cs of [] \<Rightarrow> [[c]] | l # ls \<Rightarrow> (c # l) # ls))"

definition section_of :: "string \<Rightarrow> string list \<Rightarrow> string list" where
  "section_of hdr ls = takeWhile (\<lambda>l. l \<noteq> []) (drop 2 (dropWhile (\<lambda>l. l \<noteq> hdr) ls))"

definition fg_section :: "frame \<Rightarrow> string list" where
  "fg_section f = section_of ''FOREGROUND COLORS:'' (split_lines (stdout f))"

definition bg_section :: "frame \<Rightarrow> string list" where
  "bg_section f = section_of ''BACKGROUND COLORS:'' (split_lines (stdout f))"

definition comb_section :: "frame \<Rightarrow> string list" where
  "comb_section f =
     section_of ''COMBINATIONS (Foreground + Background):'' (split_lines (stdout f))"

text \<open>
  How a terminal reads a line: \<open>sgr_prefix\<close> takes the escape sequences
  \<open>ESC [ parameters m\<close> that open a string and gives their parameter strings and the
  rest of the string.
\<close>

function sgr_prefix :: "string \<Rightarrow> string list \<times> string" where
  "sgr_prefix [] = ([], [])"
| "sgr_prefix [c] = ([], [c])"
| "sgr_prefix (e # b # rest) =
     (if e = ESC \<and> b = CHR ''['' \<and> CHR ''m'' \<in> set rest
      then (case sgr_prefix (tl (dropWhile (\<lambda>c. c \<noteq> CHR ''m'') rest)) of
              (ps, r) \<Rightarrow> (takeWhile (\<lambda>c. c \<noteq> CHR ''m'') rest # ps, r))
      else ([], e # b # rest))"
  by pat_completeness auto
termination
proof (relation "measure length")
  fix e b :: char and rest :: string
  have "length (dropWhile (\<lambda>c. c \<noteq> CHR ''m'') rest) \<le> length rest"
    by (rule length_dropWhile_le)
  then show "(tl (dropWhile (\<lambda>c. c \<noteq> CHR ''m'') rest), e # b # rest) \<in> measure length"
    by simp
qed simp

text \<open>
  An entry line seen in four parts: the parameters of the escape sequences that open
  it, the text shown under that style (up to the next escape character), the
  parameters of the escape sequences that close the style, and the plain text after
  them.
\<close>

definition styled_text :: "string \<Rightarrow> string" where
  "styled_text l = takeWhile (\<lambda>c. c \<noteq> ESC) (snd (sgr_prefix l))"

definition closing_sgr :: "string \<Rightarrow> string list" where
  "closing_sgr l = fst (sgr_prefix (dropWhile (\<lambda>c. c \<noteq> ESC) (snd (sgr_prefix l))))"

definition plain_tail :: "string \<Rightarrow> string" where
  "plain_tail l = snd (sgr_prefix (dropWhile (\<lambda>c. c \<noteq> ESC) (snd (sgr_prefix l))))"

definition rstrip :: "string \<Rightarrow> string" where
  "rstrip s = rev (dropWhile (\<lambda>c. c = CHR '' '') (rev s))"

text \<open>The plain text after the styled part is read in columns separated by spaces; the
  first of them documents the escape sequence.\<close>

definition doc_column :: "string \<Rightarrow> string" where
  "doc_column l =
     takeWhile (\<lambda>c. c \<noteq> CHR '' '') (dropWhile (\<lambda>c. c = CHR '' '') (plain_tail l))"

text \<open>A string of decimal digits denotes a number; any other string denotes none.\<close>

definition nat_of_decimal :: "string \<Rightarrow> nat option" where
  "nat_of_decimal s =
     (if s \<noteq> [] \<and> list_all (\<lambda>c. c \<in> set ''0123456789'') s
      then Some (foldl (\<lambda>a c. 10 * a + (of_char c - 48)) 0 s)
      else None)"

text \<open>
  What one entry line shows, as text: the name under the style, the parameter of the
  escape sequence right before the name, and the characters of the documentation
  column between \<open>\033[\<close> and \<open>m\<close>.
\<close>

definition style_param :: "string \<Rightarrow> string option" where
  "style_param l = (case fst (sgr_prefix l) of [] \<Rightarrow> None | p # ps \<Rightarrow> Some (last (p # ps)))"

definition doc_param :: "string \<Rightarrow> string option" where
  "doc_param l =
     (let d = doc_column l
      in if take 5 d = BSL # ''033['' \<and> drop (length d - 1) d = ''m''
         then Some (take (length d - 6) (drop 5 d))
         else None)"

definition shown_entry :: "string \<Rightarrow> string \<times> string option \<times> string option" where
  "shown_entry l = (rstrip (styled_text l), style_param l, doc_param l)"

text \<open>
  The converse of that reading: a line put together from the parameters of its opening
  escape sequences, the styled text, and the plain text after the reset sequence and
  one space.
\<close>

definition entry_line :: "string list \<Rightarrow> string \<Rightarrow> string \<Rightarrow> string" where
  "entry_line ps label tail =
     concat (map (\<lambda>p. ESC # CHR ''['' # p @ ''m'') ps) @ label @ ESC # ''[0m'' @ CHR '' '' # tail"

text \<open>The text of a list of lines, each ended by a line feed.\<close>

definition unlines :: "string list \<Rightarrow> string" where
  "unlines ls = concat (map (\<lambda>l. l @ [NL]) ls)"

text \<open>The lines the function writes, section by section.\<close>

definition fg_lines :: "string list" where
  "fg_lines = map (\<lambda>(name, code). fg_line name code) fg_colors_init"

definition bg_lines :: "string list" where
  "bg_lines = map (\<lambda>(name, code). bg_line name code) bg_colors_init"

definition comb_lines :: "string list" where
  "comb_lines =
     [comb_line ''Bright White'' ''97'' ''Blue'' ''44'',
      comb_line ''Yellow'' ''33'' ''Bright Black'' ''100'',
      comb_line ''Bright Cyan'' ''96'' ''Magenta'' ''45'',
      comb_line ''Bright Red'' ''91'' ''Bright Yellow'' ''103'',
      comb_line ''Black'' ''30'' ''Bright White'' ''107'']"

definition head_lines :: "string list" where
  "head_lines = [replicate 80 CHR ''='', ''ANSI COLOR CODEMAP'', replicate 80 CHR ''='']"

definition usage_lines :: "string list" where
  "usage_lines =
     [''USAGE NOTES:'', replicate 40 CHR ''-'',
      ''1. All ANSI sequences start with '' @ BSL # ''033[ and end with m'',
      ''2. Separate multiple codes with semicolons (e.g., '' @ BSL # ''033[31;44m)'',
      ''3. Reset formatting with '' @ BSL # ''033[0m'',
      replicate 80 CHR ''='']"

definition all_lines :: "string list" where
  "all_lines =
     head_lines
     @ [[], ''FOREGROUND COLORS:'', replicate 40 CHR ''-''] @ fg_lines
     @ [[], ''BACKGROUND COLORS:'', replicate 40 CHR ''-''] @ bg_lines
     @ [[], ''COMBINATIONS (Foreground + Background):'', replicate 40 CHR ''-''] @ comb_lines
     @ [] # usage_lines"

section \<open>The reference tables of the specification\<close>

text \<open>
  The specification's own tables, written from its words and not from the source: the
  eight colour names in their declared order followed by their \<open>Bright\<close> variants, the
  foreground codes 30 to 37 and 90 to 97, the background codes 40 to 47 and 100 to 107,
  the background codes that take bright-white text, and the five combinations.
\<close>

definition spec_base_names :: "string list" where
  "spec_base_names =
     [''Black'', ''Red'', ''Green'', ''Yellow'', ''Blue'', ''Magenta'', ''Cyan'', ''White'']"

definition spec_color_order :: "string list" where
  "spec_color_order = spec_base_names @ map (\<lambda>n. ''Bright '' @ n) spec_base_names"

definition spec_fg_table :: "(string \<times> nat) list" where
  "spec_fg_table = zip spec_color_order ([30..<38] @ [90..<98])"

definition spec_bg_table :: "(string \<times> nat) list" where
  "spec_bg_table = zip spec_color_order ([40..<48] @ [100..<108])"

text \<open>
  The text of a code: a natural number written in decimal, most significant digit
  first and without leading zeros, as the specification prints \<open>31\<close> or \<open>107\<close>.
\<close>

function decimal :: "nat \<Rightarrow> string" where
  "decimal n =
     (if n < 10 then [''0123456789'' ! n]
      else decimal (n div 10) @ [''0123456789'' ! (n mod 10)])"
  by pat_completeness auto
termination
  by (relation "measure (\<lambda>n. n)") auto

definition spec_dark_backgrounds :: "nat list" where
  "spec_dark_backgrounds = [40, 41, 42, 43, 44, 45, 46, 100]"

definition spec_combinations :: "(string \<times> string) list" where
  "spec_combinations =
     [(''Bright White'', ''Blue''),
      (''Yellow'', ''Bright Black''),
      (''Bright Cyan'', ''Magenta''),
      (''Bright Red'', ''Bright Yellow''),
      (''Black'', ''Bright White'')]"

section \<open>The text the function writes\<close>

subsection \<open>Character codes and left-justification\<close>

lemma escape_codes:
  "of_char ESC = (27::nat)" "of_char BSL = (92::nat)" "of_char NL = (10::nat)"
  by simp_all

lemma ljust_length: "length (ljust s w) = max w (length s)"
  by (simp add: ljust_def)

lemma ljust_take: "take (length s) (ljust s w) = s"
  by (simp add: ljust_def)

lemma ljust_drop: "drop (length s) (ljust s w) = replicate (w - length s) CHR '' ''"
  by (simp add: ljust_def)

subsection \<open>The loops append their lines and leave the tables alone\<close>

lemma unlines_append: "unlines (xs @ ys) = unlines xs @ unlines ys"
  by (simp add: unlines_def)

lemma unlines_Cons: "unlines (l # ls) = l @ NL # unlines ls"
  by (simp add: unlines_def)

lemma unlines_Nil: "unlines [] = []"
  by (simp add: unlines_def)

lemma fold_print:
  "fold (\<lambda>(name, code). py_print (g name code)) xs f =
     f\<lparr>stdout := stdout f @ unlines (map (\<lambda>(name, code). g name code) xs)\<rparr>"
proof (induction xs arbitrary: f)
  case Nil
  show ?case by (simp add: unlines_Nil)
next
  case (Cons x xs)
  obtain name code where x: "x = (name, code)" by (cases x)
  show ?case
    by (simp add: x Cons.IH) (simp add: py_print_def unlines_Cons)
qed

lemma fg_loop_eq:
  "fg_loop f =
     f\<lparr>stdout := stdout f @ unlines (map (\<lambda>(name, code). fg_line name code) (fg_colors f))\<rparr>"
  unfolding fg_loop_def by (rule fold_print)

lemma bg_loop_eq:
  "bg_loop f =
     f\<lparr>stdout := stdout f @ unlines (map (\<lambda>(name, code). bg_line name code) (bg_colors f))\<rparr>"
  unfolding bg_loop_def by (rule fold_print)

lemma comb_entry_eq:
  assumes "map_of (fg_colors f) fg_name = Some fg_code"
    and "map_of (bg_colors f) bg_name = Some bg_code"
  shows "comb_entry fg_name bg_name f =
           Inr (f\<lparr>stdout := stdout f @ comb_line fg_name fg_code bg_name bg_code @ [NL]\<rparr>)"
  using assms by (simp add: comb_entry_def getitem_def py_print_def)

lemma fg_lookups:
  "map_of fg_colors_init ''Bright White'' = Some ''97''"
  "map_of fg_colors_init ''Yellow'' = Some ''33''"
  "map_of fg_colors_init ''Bright Cyan'' = Some ''96''"
  "map_of fg_colors_init ''Bright Red'' = Some ''91''"
  "map_of fg_colors_init ''Black'' = Some ''30''"
  by (simp_all add: fg_colors_init_def)

lemma bg_lookups:
  "map_of bg_colors_init ''Blue'' = Some ''44''"
  "map_of bg_colors_init ''Bright Black'' = Some ''100''"
  "map_of bg_colors_init ''Magenta'' = Some ''45''"
  "map_of bg_colors_init ''Bright Yellow'' = Some ''103''"
  "map_of bg_colors_init ''Bright White'' = Some ''107''"
  by (simp_all add: bg_colors_init_def)

lemma comb_loop_eq:
  assumes "fg_colors f = fg_colors_init" and "bg_colors f = bg_colors_init"
  shows "comb_loop combinations f = Inr (f\<lparr>stdout := stdout f @ unlines comb_lines\<rparr>)"
  unfolding combinations_def comb_lines_def
  by (simp add: comb_entry_eq assms fg_lookups bg_lookups unlines_Cons unlines_Nil)

lemma show_ansi_colors_eq:
  "show_ansi_colors out = Inr ((init_frame out)\<lparr>stdout := out @ unlines all_lines\<rparr>)"
  unfolding show_ansi_colors_def body_def all_lines_def fg_lines_def bg_lines_def
    head_lines_def usage_lines_def
  by (simp add: pure_stmt_def py_print_def fg_loop_eq bg_loop_eq comb_loop_eq init_frame_def
      unlines_append unlines_Cons unlines_Nil)

subsection \<open>Lines and sections of the written text\<close>

lemma split_lines_line: "NL \<notin> set l \<Longrightarrow> split_lines (l @ NL # rest) = l # split_lines rest"
  by (induction l) auto

lemma split_lines_unlines: "\<forall>l\<in>set ls. NL \<notin> set l \<Longrightarrow> split_lines (unlines ls) = ls"
  by (induction ls) (simp_all add: unlines_Nil unlines_Cons split_lines_line)

lemma section_of_eq:
  assumes "hdr \<notin> set pre" and "[] \<notin> set sec"
  shows "section_of hdr (pre @ hdr # rule # sec @ [] # post) = sec"
proof -
  have "dropWhile (\<lambda>l. l \<noteq> hdr) (pre @ hdr # rule # sec @ [] # post)
          = hdr # rule # sec @ [] # post"
    using assms(1) by (auto simp add: dropWhile_append3)
  moreover have "takeWhile (\<lambda>l. l \<noteq> []) (sec @ [] # post) = sec"
    using assms(2) by (auto simp add: takeWhile_tail takeWhile_eq_all_conv)
  ultimately show ?thesis
    by (simp add: section_of_def)
qed

lemma ljust_no_NL: "NL \<notin> set s \<Longrightarrow> NL \<notin> set (ljust s w)"
  by (simp add: ljust_def)

lemma fg_line_no_NL: "NL \<notin> set name \<Longrightarrow> NL \<notin> set code \<Longrightarrow> NL \<notin> set (fg_line name code)"
  by (simp add: fg_line_def ljust_def)

lemma bg_line_no_NL: "NL \<notin> set name \<Longrightarrow> NL \<notin> set code \<Longrightarrow> NL \<notin> set (bg_line name code)"
  by (simp add: bg_line_def ljust_def text_color_def)

lemma comb_line_no_NL:
  "NL \<notin> set a \<Longrightarrow> NL \<notin> set x \<Longrightarrow> NL \<notin> set b \<Longrightarrow> NL \<notin> set y \<Longrightarrow> NL \<notin> set (comb_line a x b y)"
  by (simp add: comb_line_def ljust_def)

lemma fg_lines_no_NL: "\<forall>l\<in>set fg_lines. NL \<notin> set l"
  by (simp add: fg_lines_def fg_colors_init_def fg_line_no_NL)

lemma bg_lines_no_NL: "\<forall>l\<in>set bg_lines. NL \<notin> set l"
  by (simp add: bg_lines_def bg_colors_init_def bg_line_no_NL)

lemma comb_lines_no_NL: "\<forall>l\<in>set comb_lines. NL \<notin> set l"
  by (simp add: comb_lines_def comb_line_no_NL)

lemma all_lines_no_NL: "\<forall>l\<in>set all_lines. NL \<notin> set l"
  using fg_lines_no_NL bg_lines_no_NL comb_lines_no_NL
  by (auto simp add: all_lines_def head_lines_def usage_lines_def)

lemma split_lines_all: "split_lines (unlines all_lines) = all_lines"
  by (rule split_lines_unlines) (rule all_lines_no_NL)

lemma fg_lines_ESC: "l \<in> set fg_lines \<Longrightarrow> \<exists>t. l = ESC # t"
  by (auto simp add: fg_lines_def fg_line_def)

lemma bg_lines_ESC: "l \<in> set bg_lines \<Longrightarrow> \<exists>t. l = ESC # t"
  by (auto simp add: bg_lines_def bg_line_def)

lemma comb_lines_ESC: "l \<in> set comb_lines \<Longrightarrow> \<exists>t. l = ESC # t"
  by (auto simp add: comb_lines_def comb_line_def)

lemma Cons_neq_replicate: "x \<noteq> c \<Longrightarrow> x # xs \<noteq> replicate n c"
  by (cases n) auto

lemma fg_section_all: "section_of ''FOREGROUND COLORS:'' all_lines = fg_lines"
proof -
  have "''FOREGROUND COLORS:'' \<notin> set (head_lines @ [[]])"
    by (simp add: head_lines_def Cons_neq_replicate)
  moreover have "[] \<notin> set fg_lines"
    using fg_lines_ESC by blast
  ultimately have
    "section_of ''FOREGROUND COLORS:''
       ((head_lines @ [[]]) @ ''FOREGROUND COLORS:'' # replicate 40 CHR ''-'' # fg_lines @ [] #
          ([''BACKGROUND COLORS:'', replicate 40 CHR ''-''] @ bg_lines
           @ [[], ''COMBINATIONS (Foreground + Background):'', replicate 40 CHR ''-'']
           @ comb_lines @ [] # usage_lines))
     = fg_lines"
    by (rule section_of_eq)
  then show ?thesis
    by (simp add: all_lines_def)
qed

lemma bg_section_all: "section_of ''BACKGROUND COLORS:'' all_lines = bg_lines"
proof -
  have "''BACKGROUND COLORS:'' \<notin> set fg_lines"
    using fg_lines_ESC by blast
  then have "''BACKGROUND COLORS:'' \<notin>
      set (head_lines @ [[], ''FOREGROUND COLORS:'', replicate 40 CHR ''-''] @ fg_lines @ [[]])"
    by (simp add: head_lines_def Cons_neq_replicate)
  moreover have "[] \<notin> set bg_lines"
    using bg_lines_ESC by blast
  ultimately have
    "section_of ''BACKGROUND COLORS:''
       ((head_lines @ [[], ''FOREGROUND COLORS:'', replicate 40 CHR ''-''] @ fg_lines @ [[]])
        @ ''BACKGROUND COLORS:'' # replicate 40 CHR ''-'' # bg_lines @ [] #
          ([''COMBINATIONS (Foreground + Background):'', replicate 40 CHR ''-'']
           @ comb_lines @ [] # usage_lines))
     = bg_lines"
    by (rule section_of_eq)
  then show ?thesis
    by (simp add: all_lines_def)
qed

lemma comb_section_all:
  "section_of ''COMBINATIONS (Foreground + Background):'' all_lines = comb_lines"
proof -
  have "''COMBINATIONS (Foreground + Background):'' \<notin> set fg_lines"
    using fg_lines_ESC by blast
  moreover have "''COMBINATIONS (Foreground + Background):'' \<notin> set bg_lines"
    using bg_lines_ESC by blast
  ultimately have "''COMBINATIONS (Foreground + Background):'' \<notin>
      set (head_lines @ [[], ''FOREGROUND COLORS:'', replicate 40 CHR ''-''] @ fg_lines
           @ [[], ''BACKGROUND COLORS:'', replicate 40 CHR ''-''] @ bg_lines @ [[]])"
    by (simp add: head_lines_def Cons_neq_replicate)
  moreover have "[] \<notin> set comb_lines"
    using comb_lines_ESC by blast
  ultimately have
    "section_of ''COMBINATIONS (Foreground + Background):''
       ((head_lines @ [[], ''FOREGROUND COLORS:'', replicate 40 CHR ''-''] @ fg_lines
         @ [[], ''BACKGROUND COLORS:'', replicate 40 CHR ''-''] @ bg_lines @ [[]])
        @ ''COMBINATIONS (Foreground + Background):'' # replicate 40 CHR ''-'' # comb_lines
        @ [] # usage_lines)
     = comb_lines"
    by (rule section_of_eq)
  then show ?thesis
    by (simp add: all_lines_def)
qed

text \<open>What a run from an empty standard output leaves in each section.\<close>

lemma run_sections:
  "\<exists>f. show_ansi_colors [] = Inr f
       \<and> fg_colors f = fg_colors_init \<and> bg_colors f = bg_colors_init
       \<and> fg_section f = fg_lines \<and> bg_section f = bg_lines \<and> comb_section f = comb_lines"
  by (simp add: show_ansi_colors_eq fg_section_def bg_section_def comb_section_def
      split_lines_all fg_section_all bg_section_all comb_section_all init_frame_def)

subsection \<open>How an entry line reads\<close>

declare sgr_prefix.simps [simp del]

lemma takeWhile_upto:
  "\<forall>y\<in>set xs. P y \<Longrightarrow> r \<noteq> [] \<Longrightarrow> \<not> P (hd r) \<Longrightarrow> takeWhile P (xs @ r) = xs"
  by (cases r) (simp_all add: takeWhile_tail)

lemma dropWhile_upto:
  "\<forall>y\<in>set xs. P y \<Longrightarrow> r \<noteq> [] \<Longrightarrow> \<not> P (hd r) \<Longrightarrow> dropWhile P (xs @ r) = r"
  by (cases r) (simp_all add: dropWhile_append3)

lemma sgr_prefix_seq:
  assumes "CHR ''m'' \<notin> set p"
  shows "sgr_prefix (ESC # CHR ''['' # p @ CHR ''m'' # rest)
           = (p # fst (sgr_prefix rest), snd (sgr_prefix rest))"
proof -
  have "takeWhile (\<lambda>c. c \<noteq> CHR ''m'') (p @ CHR ''m'' # rest) = p"
    using assms by (intro takeWhile_upto) auto
  moreover have "dropWhile (\<lambda>c. c \<noteq> CHR ''m'') (p @ CHR ''m'' # rest) = CHR ''m'' # rest"
    using assms by (intro dropWhile_upto) auto
  ultimately show ?thesis
    by (simp add: sgr_prefix.simps case_prod_beta)
qed

lemma sgr_prefix_text: "c \<noteq> ESC \<Longrightarrow> sgr_prefix (c # s) = ([], c # s)"
  by (cases s) (simp_all add: sgr_prefix.simps)

lemma sgr_prefix_seqs:
  assumes "\<forall>p\<in>set ps. CHR ''m'' \<notin> set p"
  shows "sgr_prefix (concat (map (\<lambda>p. ESC # CHR ''['' # p @ ''m'') ps) @ rest)
           = (ps @ fst (sgr_prefix rest), snd (sgr_prefix rest))"
  using assms by (induction ps) (simp_all add: sgr_prefix_seq)

lemma entry_line_prefix:
  assumes "\<forall>p\<in>set ps. CHR ''m'' \<notin> set p" and "label \<noteq> []" and "ESC \<notin> set label"
  shows "sgr_prefix (entry_line ps label tail) = (ps, label @ ESC # ''[0m'' @ CHR '' '' # tail)"
proof -
  obtain c cs where label: "label = c # cs" and "c \<noteq> ESC"
    using assms(2,3) by (cases label) auto
  then have "sgr_prefix (label @ ESC # ''[0m'' @ CHR '' '' # tail)
               = ([], label @ ESC # ''[0m'' @ CHR '' '' # tail)"
    by (simp add: sgr_prefix_text)
  then show ?thesis
    unfolding entry_line_def by (simp add: sgr_prefix_seqs [OF assms(1)])
qed

lemma entry_line_sgr:
  assumes "\<forall>p\<in>set ps. CHR ''m'' \<notin> set p" and "label \<noteq> []" and "ESC \<notin> set label"
  shows "fst (sgr_prefix (entry_line ps label tail)) = ps"
  by (simp add: entry_line_prefix [OF assms])

lemma entry_line_styled:
  assumes "\<forall>p\<in>set ps. CHR ''m'' \<notin> set p" and "label \<noteq> []" and "ESC \<notin> set label"
  shows "styled_text (entry_line ps label tail) = label"
proof -
  have "takeWhile (\<lambda>c. c \<noteq> ESC) (label @ ESC # (''[0m'' @ CHR '' '' # tail)) = label"
    using assms(3) by (intro takeWhile_upto) auto
  then show ?thesis
    by (simp add: styled_text_def entry_line_prefix [OF assms])
qed

lemma entry_line_rest:
  assumes "\<forall>p\<in>set ps. CHR ''m'' \<notin> set p" and "label \<noteq> []" and "ESC \<notin> set label"
  shows "sgr_prefix (dropWhile (\<lambda>c. c \<noteq> ESC) (snd (sgr_prefix (entry_line ps label tail))))
           = ([''0''], CHR '' '' # tail)"
proof -
  have "dropWhile (\<lambda>c. c \<noteq> ESC) (label @ ESC # (''[0m'' @ CHR '' '' # tail))
          = ESC # (''[0m'' @ CHR '' '' # tail)"
    using assms(3) by (intro dropWhile_upto) auto
  moreover have "sgr_prefix (ESC # CHR ''['' # ''0'' @ CHR ''m'' # (CHR '' '' # tail))
                   = ([''0''], CHR '' '' # tail)"
    by (subst sgr_prefix_seq) (simp_all add: sgr_prefix_text)
  ultimately show ?thesis
    by (simp add: entry_line_prefix [OF assms])
qed

lemma entry_line_closing:
  assumes "\<forall>p\<in>set ps. CHR ''m'' \<notin> set p" and "label \<noteq> []" and "ESC \<notin> set label"
  shows "closing_sgr (entry_line ps label tail) = [''0'']"
  by (simp add: closing_sgr_def entry_line_rest [OF assms])

lemma entry_line_tail:
  assumes "\<forall>p\<in>set ps. CHR ''m'' \<notin> set p" and "label \<noteq> []" and "ESC \<notin> set label"
  shows "plain_tail (entry_line ps label tail) = CHR '' '' # tail"
  by (simp add: plain_tail_def entry_line_rest [OF assms])

lemma rstrip_append_ljust:
  assumes "s \<noteq> []" and "last s \<noteq> CHR '' ''"
  shows "rstrip (t @ ljust s w) = t @ s"
proof -
  have "hd (rev s @ rev t) = last s"
    using assms(1) by (simp add: hd_rev)
  then have "dropWhile (\<lambda>c. c = CHR '' '') (replicate (w - length s) CHR '' '' @ (rev s @ rev t))
               = rev s @ rev t"
    using assms by (intro dropWhile_upto) auto
  then show ?thesis
    by (simp add: rstrip_def ljust_def)
qed

lemma rstrip_ljust:
  assumes "s \<noteq> []" and "last s \<noteq> CHR '' ''"
  shows "rstrip (ljust s w) = s"
  using rstrip_append_ljust [OF assms, of "[]" w] by simp

lemma doc_column_entry_line:
  assumes "\<forall>p\<in>set ps. CHR ''m'' \<notin> set p" and "label \<noteq> []" and "ESC \<notin> set label"
    and "d \<noteq> []" and "CHR '' '' \<notin> set d"
  shows "doc_column (entry_line ps label (ljust d w @ '' Example text'')) = d"
proof -
  have "d \<noteq> [] \<and> hd d \<noteq> CHR '' ''"
    using assms(4,5) by (cases d) auto
  then have "dropWhile (\<lambda>c. c = CHR '' '') ([CHR '' ''] @ (ljust d w @ '' Example text''))
               = ljust d w @ '' Example text''"
    by (intro dropWhile_upto) (auto simp add: ljust_def)
  moreover have "hd (replicate (w - length d) CHR '' '' @ '' Example text'') = CHR '' ''"
    by (cases "w - length d") simp_all
  then have "takeWhile (\<lambda>c. c \<noteq> CHR '' '')
               (d @ (replicate (w - length d) CHR '' '' @ '' Example text'')) = d"
    using assms(5) by (intro takeWhile_upto) auto
  ultimately show ?thesis
    by (simp add: doc_column_def entry_line_tail [OF assms(1,2,3)] ljust_def)
qed

subsection \<open>The three kinds of line as entry lines\<close>

lemma fg_line_entry:
  "fg_line name code
     = entry_line [code] (ljust name 15) (ljust (BSL # ''033['' @ code @ ''m'') 10 @ '' Example text'')"
  by (simp add: fg_line_def entry_line_def)

lemma bg_line_entry:
  "bg_line name code
     = entry_line [text_color code, code] (ljust name 15)
         (ljust (BSL # ''033['' @ code @ ''m'') 10 @ '' Example text'')"
  by (simp add: bg_line_def entry_line_def)

lemma comb_line_entry:
  "comb_line fg_name fg_code bg_name bg_code
     = entry_line [fg_code @ '';'' @ bg_code] (fg_name @ '' on '' @ ljust bg_name 25)
         (ljust (BSL # ''033['' @ fg_code @ '';'' @ bg_code @ ''m'') 15 @ '' Example text'')"
  by (simp add: comb_line_def entry_line_def)

lemma text_color_no_m: "CHR ''m'' \<notin> set (text_color code)"
  by (simp add: text_color_def)

lemma ljust_no_ESC: "ESC \<notin> set s \<Longrightarrow> ESC \<notin> set (ljust s w)"
  by (simp add: ljust_def)

lemma ljust_nonempty: "0 < w \<Longrightarrow> ljust s w \<noteq> []"
  by (simp add: ljust_def)

lemma fg_line_sgr:
  "CHR ''m'' \<notin> set code \<Longrightarrow> ESC \<notin> set name \<Longrightarrow> fst (sgr_prefix (fg_line name code)) = [code]"
  by (simp add: fg_line_entry entry_line_sgr ljust_no_ESC ljust_nonempty)

lemma fg_line_styled:
  "CHR ''m'' \<notin> set code \<Longrightarrow> ESC \<notin> set name \<Longrightarrow> styled_text (fg_line name code) = ljust name 15"
  by (simp add: fg_line_entry entry_line_styled ljust_no_ESC ljust_nonempty)

lemma fg_line_closing:
  "CHR ''m'' \<notin> set code \<Longrightarrow> ESC \<notin> set name \<Longrightarrow> closing_sgr (fg_line name code) = [''0'']"
  by (simp add: fg_line_entry entry_line_closing ljust_no_ESC ljust_nonempty)

lemma fg_line_tail:
  "CHR ''m'' \<notin> set code \<Longrightarrow> ESC \<notin> set name \<Longrightarrow>
   plain_tail (fg_line name code)
     = CHR '' '' # ljust (BSL # ''033['' @ code @ ''m'') 10 @ '' Example text''"
  by (simp add: fg_line_entry entry_line_tail ljust_no_ESC ljust_nonempty)

lemma fg_line_doc:
  "CHR ''m'' \<notin> set code \<Longrightarrow> ESC \<notin> set name \<Longrightarrow> CHR '' '' \<notin> set code \<Longrightarrow>
   doc_column (fg_line name code) = BSL # ''033['' @ code @ ''m''"
  by (simp add: fg_line_entry doc_column_entry_line ljust_no_ESC ljust_nonempty)

lemma bg_line_sgr:
  "CHR ''m'' \<notin> set code \<Longrightarrow> ESC \<notin> set name \<Longrightarrow>
   fst (sgr_prefix (bg_line name code)) = [text_color code, code]"
  by (simp add: bg_line_entry entry_line_sgr ljust_no_ESC ljust_nonempty text_color_no_m)

lemma bg_line_styled:
  "CHR ''m'' \<notin> set code \<Longrightarrow> ESC \<notin> set name \<Longrightarrow> styled_text (bg_line name code) = ljust name 15"
  by (simp add: bg_line_entry entry_line_styled ljust_no_ESC ljust_nonempty text_color_no_m)

lemma bg_line_closing:
  "CHR ''m'' \<notin> set code \<Longrightarrow> ESC \<notin> set name \<Longrightarrow> closing_sgr (bg_line name code) = [''0'']"
  by (simp add: bg_line_entry entry_line_closing ljust_no_ESC ljust_nonempty text_color_no_m)

lemma bg_line_tail:
  "CHR ''m'' \<notin> set code \<Longrightarrow> ESC \<notin> set name \<Longrightarrow>
   plain_tail (bg_line name code)
     = CHR '' '' # ljust (BSL # ''033['' @ code @ ''m'') 10 @ '' Example text''"
  by (simp add: bg_line_entry entry_line_tail ljust_no_ESC ljust_nonempty text_color_no_m)

lemma bg_line_doc:
  "CHR ''m'' \<notin> set code \<Longrightarrow> ESC \<notin> set name \<Longrightarrow> CHR '' '' \<notin> set code \<Longrightarrow>
   doc_column (bg_line name code) = BSL # ''033['' @ code @ ''m''"
  by (simp add: bg_line_entry doc_column_entry_line ljust_no_ESC ljust_nonempty text_color_no_m)

lemma comb_line_sgr:
  "CHR ''m'' \<notin> set fg_code \<Longrightarrow> CHR ''m'' \<notin> set bg_code \<Longrightarrow>
   ESC \<notin> set fg_name \<Longrightarrow> ESC \<notin> set bg_name \<Longrightarrow>
   fst (sgr_prefix (comb_line fg_name fg_code bg_name bg_code)) = [fg_code @ '';'' @ bg_code]"
  by (simp add: comb_line_entry entry_line_sgr ljust_no_ESC)

lemma comb_line_styled:
  "CHR ''m'' \<notin> set fg_code \<Longrightarrow> CHR ''m'' \<notin> set bg_code \<Longrightarrow>
   ESC \<notin> set fg_name \<Longrightarrow> ESC \<notin> set bg_name \<Longrightarrow>
   styled_text (comb_line fg_name fg_code bg_name bg_code) = fg_name @ '' on '' @ ljust bg_name 25"
  by (simp add: comb_line_entry entry_line_styled ljust_no_ESC)

lemma comb_line_closing:
  "CHR ''m'' \<notin> set fg_code \<Longrightarrow> CHR ''m'' \<notin> set bg_code \<Longrightarrow>
   ESC \<notin> set fg_name \<Longrightarrow> ESC \<notin> set bg_name \<Longrightarrow>
   closing_sgr (comb_line fg_name fg_code bg_name bg_code) = [''0'']"
  by (simp add: comb_line_entry entry_line_closing ljust_no_ESC)

lemma comb_line_tail:
  "CHR ''m'' \<notin> set fg_code \<Longrightarrow> CHR ''m'' \<notin> set bg_code \<Longrightarrow>
   ESC \<notin> set fg_name \<Longrightarrow> ESC \<notin> set bg_name \<Longrightarrow>
   plain_tail (comb_line fg_name fg_code bg_name bg_code)
     = CHR '' '' # ljust (BSL # ''033['' @ fg_code @ '';'' @ bg_code @ ''m'') 15 @ '' Example text''"
  by (simp add: comb_line_entry entry_line_tail ljust_no_ESC)

lemma comb_line_doc:
  "CHR ''m'' \<notin> set fg_code \<Longrightarrow> CHR ''m'' \<notin> set bg_code \<Longrightarrow>
   ESC \<notin> set fg_name \<Longrightarrow> ESC \<notin> set bg_name \<Longrightarrow>
   CHR '' '' \<notin> set fg_code \<Longrightarrow> CHR '' '' \<notin> set bg_code \<Longrightarrow>
   doc_column (comb_line fg_name fg_code bg_name bg_code)
     = BSL # ''033['' @ fg_code @ '';'' @ bg_code @ ''m''"
  by (simp add: comb_line_entry doc_column_entry_line ljust_no_ESC)

lemma doc_param_of_column:
  "doc_column l = BSL # ''033['' @ code @ ''m'' \<Longrightarrow> doc_param l = Some code"
  by (simp add: doc_param_def)

lemma shown_entry_fg:
  assumes "CHR ''m'' \<notin> set code" and "ESC \<notin> set name" and "CHR '' '' \<notin> set code"
    and "name \<noteq> []" and "last name \<noteq> CHR '' ''"
  shows "shown_entry (fg_line name code) = (name, Some code, Some code)"
  using assms
  by (simp add: shown_entry_def style_param_def fg_line_sgr fg_line_styled rstrip_ljust
      doc_param_of_column [OF fg_line_doc])

lemma shown_entry_bg:
  assumes "CHR ''m'' \<notin> set code" and "ESC \<notin> set name" and "CHR '' '' \<notin> set code"
    and "name \<noteq> []" and "last name \<noteq> CHR '' ''"
  shows "shown_entry (bg_line name code) = (name, Some code, Some code)"
  using assms
  by (simp add: shown_entry_def style_param_def bg_line_sgr bg_line_styled rstrip_ljust
      doc_param_of_column [OF bg_line_doc])

declare decimal.simps [simp del]

lemma decimal_digit: "n < 10 \<Longrightarrow> decimal n = [''0123456789'' ! n]"
  by (simp add: decimal.simps [of n])

lemma decimal_step:
  "10 \<le> n \<Longrightarrow> decimal n = decimal (n div 10) @ [''0123456789'' ! (n mod 10)]"
  by (simp add: decimal.simps [of n])

lemma spec_fg_text:
  "map (\<lambda>(name, k). (name, decimal k)) spec_fg_table
     = zip spec_color_order
         [''30'', ''31'', ''32'', ''33'', ''34'', ''35'', ''36'', ''37'',
          ''90'', ''91'', ''92'', ''93'', ''94'', ''95'', ''96'', ''97'']"
  by (simp add: spec_fg_table_def spec_color_order_def spec_base_names_def upt_conv_Cons
      decimal_step decimal_digit)

lemma spec_bg_text:
  "map (\<lambda>(name, k). (name, decimal k)) spec_bg_table
     = zip spec_color_order
         [''40'', ''41'', ''42'', ''43'', ''44'', ''45'', ''46'', ''47'',
          ''100'', ''101'', ''102'', ''103'', ''104'', ''105'', ''106'', ''107'']"
  by (simp add: spec_bg_table_def spec_color_order_def spec_base_names_def upt_conv_Cons
      decimal_step decimal_digit)

section \<open>The claims\<close>

text \<open>
  C1. Every entry printed in the FOREGROUND COLORS and BACKGROUND COLORS sections shows
  the code of the reference table for its name, character for character: read back
  from the text a run writes, the sixteen foreground lines show, in order, the names
  with the texts \<open>30\<close> to \<open>37\<close> and \<open>90\<close> to \<open>97\<close>, and the sixteen background lines
  the names with \<open>40\<close> to \<open>47\<close> and \<open>100\<close> to \<open>107\<close>, both as the parameter of the
  escape sequence in front of the name and in the documentation column. The code texts
  are the decimal numerals of the reference numbers, with no leading zero or other
  character.
\<close>

theorem printed_codes_match_reference:
  "\<exists>f. show_ansi_colors [] = Inr f
       \<and> map shown_entry (fg_section f)
           = map (\<lambda>(name, k). (name, Some (decimal k), Some (decimal k))) spec_fg_table
       \<and> map shown_entry (bg_section f)
           = map (\<lambda>(name, k). (name, Some (decimal k), Some (decimal k))) spec_bg_table
       \<and> map (\<lambda>(name, k). decimal k) spec_fg_table
           = [''30'', ''31'', ''32'', ''33'', ''34'', ''35'', ''36'', ''37'',
              ''90'', ''91'', ''92'', ''93'', ''94'', ''95'', ''96'', ''97'']
       \<and> map (\<lambda>(name, k). decimal k) spec_bg_table
           = [''40'', ''41'', ''42'', ''43'', ''44'', ''45'', ''46'', ''47'',
              ''100'', ''101'', ''102'', ''103'', ''104'', ''105'', ''106'', ''107'']"
proof -
  have "map shown_entry fg_lines
      = map (\<lambda>(name, c). (name, Some c, Some c)) (map (\<lambda>(name, k). (name, decimal k)) spec_fg_table)"
    unfolding spec_fg_text
    by (simp add: fg_lines_def fg_colors_init_def shown_entry_fg spec_color_order_def
        spec_base_names_def)
  then have fg: "map shown_entry fg_lines
      = map (\<lambda>(name, k). (name, Some (decimal k), Some (decimal k))) spec_fg_table"
    by (simp add: case_prod_unfold comp_def)
  have "map shown_entry bg_lines
      = map (\<lambda>(name, c). (name, Some c, Some c)) (map (\<lambda>(name, k). (name, decimal k)) spec_bg_table)"
    unfolding spec_bg_text
    by (simp add: bg_lines_def bg_colors_init_def shown_entry_bg spec_color_order_def
        spec_base_names_def)
  then have bg: "map shown_entry bg_lines
      = map (\<lambda>(name, k). (name, Some (decimal k), Some (decimal k))) spec_bg_table"
    by (simp add: case_prod_unfold comp_def)
  have "map snd (map (\<lambda>(name, k). (name, decimal k)) spec_fg_table)
      = [''30'', ''31'', ''32'', ''33'', ''34'', ''35'', ''36'', ''37'',
         ''90'', ''91'', ''92'', ''93'', ''94'', ''95'', ''96'', ''97'']"
    unfolding spec_fg_text by (simp add: spec_color_order_def spec_base_names_def)
  then have fg_text: "map (\<lambda>(name, k). decimal k) spec_fg_table
      = [''30'', ''31'', ''32'', ''33'', ''34'', ''35'', ''36'', ''37'',
         ''90'', ''91'', ''92'', ''93'', ''94'', ''95'', ''96'', ''97'']"
    by (simp add: case_prod_unfold comp_def)
  have "map snd (map (\<lambda>(name, k). (name, decimal k)) spec_bg_table)
      = [''40'', ''41'', ''42'', ''43'', ''44'', ''45'', ''46'', ''47'',
         ''100'', ''101'', ''102'', ''103'', ''104'', ''105'', ''106'', ''107'']"
    unfolding spec_bg_text by (simp add: spec_color_order_def spec_base_names_def)
  then have bg_text: "map (\<lambda>(name, k). decimal k) spec_bg_table
      = [''40'', ''41'', ''42'', ''43'', ''44'', ''45'', ''46'', ''47'',
         ''100'', ''101'', ''102'', ''103'', ''104'', ''105'', ''106'', ''107'']"
    by (simp add: case_prod_unfold comp_def)
  from run_sections obtain f where "show_ansi_colors [] = Inr f"
    and "fg_section f = fg_lines" and "bg_section f = bg_lines"
    by blast
  with fg bg fg_text bg_text show ?thesis
    by (intro exI [of _ f]) (simp only: simp_thms)
qed

text \<open>
  C2. On every line of the BACKGROUND COLORS section the text colour emitted for
  contrast is 97 when the background code is one of 40, 41, 42, 43, 44, 45, 46, 100
  and 30 for every other background code. The rule is a membership test in a fixed
  list: \<open>text_color\<close> answers \<open>97\<close> exactly for the eight listed strings.
\<close>

theorem background_contrast_rule:
  "\<exists>f. show_ansi_colors [] = Inr f
       \<and> map (\<lambda>l. map nat_of_decimal (fst (sgr_prefix l))) (bg_section f)
           = map (\<lambda>(name, k). [Some (if k \<in> set spec_dark_backgrounds then 97 else 30), Some k])
               spec_bg_table
       \<and> text_color code
           = (if code \<in> {''40'', ''41'', ''42'', ''43'', ''44'', ''45'', ''46'', ''100''}
              then ''97'' else ''30'')"
proof -
  have bg: "map (\<lambda>l. map nat_of_decimal (fst (sgr_prefix l))) bg_lines
      = map (\<lambda>(name, k). [Some (if k \<in> set spec_dark_backgrounds then 97 else 30), Some k])
          spec_bg_table"
    by (simp add: bg_lines_def bg_colors_init_def bg_line_sgr text_color_def nat_of_decimal_def
        spec_bg_table_def spec_color_order_def spec_base_names_def spec_dark_backgrounds_def
        upt_conv_Cons)
  from run_sections obtain f where "show_ansi_colors [] = Inr f" and "bg_section f = bg_lines"
    by blast
  with bg show ?thesis
    by (simp add: text_color_def)
qed

text \<open>
  C3. The foreground section and the background section each print their sixteen
  entries in the declared order: the names read from the lines of either section are
  Black, Red, Green, Yellow, Blue, Magenta, Cyan, White and then the eight Bright
  variants in the same relative order.
\<close>

theorem sections_in_declared_order:
  "\<exists>f. show_ansi_colors [] = Inr f
       \<and> map (\<lambda>l. rstrip (styled_text l)) (fg_section f) = spec_color_order
       \<and> map (\<lambda>l. rstrip (styled_text l)) (bg_section f) = spec_color_order
       \<and> length spec_color_order = 16"
proof -
  have fg: "map (\<lambda>l. rstrip (styled_text l)) fg_lines = spec_color_order"
    by (simp add: fg_lines_def fg_colors_init_def fg_line_styled rstrip_ljust
        spec_color_order_def spec_base_names_def)
  have bg: "map (\<lambda>l. rstrip (styled_text l)) bg_lines = spec_color_order"
    by (simp add: bg_lines_def bg_colors_init_def bg_line_styled rstrip_ljust
        spec_color_order_def spec_base_names_def)
  from run_sections obtain f where "show_ansi_colors [] = Inr f"
    and "fg_section f = fg_lines" and "bg_section f = bg_lines"
    by blast
  with fg bg show ?thesis
    by (simp add: spec_color_order_def spec_base_names_def)
qed

lemma comb_line_label:
  assumes "CHR ''m'' \<notin> set fg_code" and "CHR ''m'' \<notin> set bg_code"
    and "ESC \<notin> set fg_name" and "ESC \<notin> set bg_name"
    and "bg_name \<noteq> []" and "last bg_name \<noteq> CHR '' ''"
  shows "rstrip (styled_text (comb_line fg_name fg_code bg_name bg_code))
           = fg_name @ '' on '' @ bg_name"
proof -
  have "rstrip ((fg_name @ '' on '') @ ljust bg_name 25) = (fg_name @ '' on '') @ bg_name"
    using assms(5,6) by (rule rstrip_append_ljust)
  then show ?thesis
    using assms(1-4) by (simp add: comb_line_styled)
qed

text \<open>
  C4. The COMBINATIONS section prints exactly five entries, in the order (Bright White,
  Blue), (Yellow, Bright Black), (Bright Cyan, Magenta), (Bright Red, Bright Yellow),
  (Black, Bright White). Each line opens with one escape sequence whose parameter is
  the foreground table's code of the first name, a semicolon, and the background
  table's code of the second name, and shows the two names joined by \<open>on\<close>.
\<close>

theorem combinations_in_declared_order:
  "\<exists>f. show_ansi_colors [] = Inr f
       \<and> map (\<lambda>l. (Some (fst (sgr_prefix l)), rstrip (styled_text l))) (comb_section f)
           = map (\<lambda>(fg_name, bg_name).
                   (Option.bind (map_of (fg_colors f) fg_name) (\<lambda>fg_code.
                      Option.bind (map_of (bg_colors f) bg_name) (\<lambda>bg_code.
                        Some [fg_code @ '';'' @ bg_code])),
                    fg_name @ '' on '' @ bg_name))
               spec_combinations
       \<and> map (\<lambda>l. fst (sgr_prefix l)) (comb_section f)
           = [[''97;44''], [''33;100''], [''96;45''], [''91;103''], [''30;107'']]
       \<and> length (comb_section f) = 5"
proof -
  have sgr: "map (\<lambda>l. fst (sgr_prefix l)) comb_lines
      = [[''97;44''], [''33;100''], [''96;45''], [''91;103''], [''30;107'']]"
    by (simp add: comb_lines_def comb_line_sgr)
  have names: "map (\<lambda>l. rstrip (styled_text l)) comb_lines
      = map (\<lambda>(fg_name, bg_name). fg_name @ '' on '' @ bg_name) spec_combinations"
    by (simp add: comb_lines_def comb_line_label spec_combinations_def)
  from run_sections obtain f where f: "show_ansi_colors [] = Inr f"
    "fg_colors f = fg_colors_init" "bg_colors f = bg_colors_init" "comb_section f = comb_lines"
    by blast
  have codes: "map (\<lambda>(fg_name, bg_name).
                   Option.bind (map_of (fg_colors f) fg_name) (\<lambda>fg_code.
                      Option.bind (map_of (bg_colors f) bg_name) (\<lambda>bg_code.
                        Some [fg_code @ '';'' @ bg_code]))) spec_combinations
      = map Some [[''97;44''], [''33;100''], [''96;45''], [''91;103''], [''30;107'']]"
    by (simp add: f spec_combinations_def fg_lookups bg_lookups)
  have len: "length comb_lines = 5"
    by (simp add: comb_lines_def)
  have "map (\<lambda>l. (Some (fst (sgr_prefix l)), rstrip (styled_text l))) comb_lines
      = zip (map Some (map (\<lambda>l. fst (sgr_prefix l)) comb_lines))
            (map (\<lambda>l. rstrip (styled_text l)) comb_lines)"
    by (simp add: zip_map_map zip_same_conv_map)
  also have "\<dots> = zip (map (\<lambda>(fg_name, bg_name).
                   Option.bind (map_of (fg_colors f) fg_name) (\<lambda>fg_code.
                      Option.bind (map_of (bg_colors f) bg_name) (\<lambda>bg_code.
                        Some [fg_code @ '';'' @ bg_code]))) spec_combinations)
            (map (\<lambda>(fg_name, bg_name). fg_name @ '' on '' @ bg_name) spec_combinations)"
    by (simp only: sgr names codes)
  also have "\<dots> = map (\<lambda>(fg_name, bg_name).
                   (Option.bind (map_of (fg_colors f) fg_name) (\<lambda>fg_code.
                      Option.bind (map_of (bg_colors f) bg_name) (\<lambda>bg_code.
                        Some [fg_code @ '';'' @ bg_code])),
                    fg_name @ '' on '' @ bg_name))
               spec_combinations"
    by (simp add: zip_map_map zip_same_conv_map case_prod_beta)
  finally show ?thesis
    using f(1,4) sgr len by simp
qed

lemma fg_line_shape:
  assumes "CHR ''m'' \<notin> set code" and "ESC \<notin> set name" and "ESC \<notin> set code"
  shows "ESC \<notin> set (plain_tail (fg_line name code)) \<and> fg_line name code \<noteq> []
           \<and> of_char (hd (fg_line name code)) = (27::nat)"
  using assms by (simp add: fg_line_tail ljust_def) (simp add: fg_line_def)

lemma bg_line_shape:
  assumes "CHR ''m'' \<notin> set code" and "ESC \<notin> set name" and "ESC \<notin> set code"
  shows "ESC \<notin> set (plain_tail (bg_line name code)) \<and> bg_line name code \<noteq> []
           \<and> of_char (hd (bg_line name code)) = (27::nat)"
  using assms by (simp add: bg_line_tail ljust_def) (simp add: bg_line_def)

lemma comb_line_shape:
  assumes "CHR ''m'' \<notin> set fg_code" and "CHR ''m'' \<notin> set bg_code"
    and "ESC \<notin> set fg_name" and "ESC \<notin> set bg_name"
    and "ESC \<notin> set fg_code" and "ESC \<notin> set bg_code"
  shows "ESC \<notin> set (plain_tail (comb_line fg_name fg_code bg_name bg_code))
           \<and> comb_line fg_name fg_code bg_name bg_code \<noteq> []
           \<and> of_char (hd (comb_line fg_name fg_code bg_name bg_code)) = (27::nat)"
  using assms by (simp add: comb_line_tail ljust_def) (simp add: comb_line_def)

text \<open>
  C5. In every entry line the documentation column is the literal characters backslash,
  \<open>0\<close>, \<open>3\<close>, \<open>3\<close>, \<open>[\<close>, the code, \<open>m\<close> (with both codes joined by a semicolon on a
  combination line); the plain text that holds it has no escape character in it; and
  the line itself begins with the escape character, code 27. The column is read as the
  first space-separated word after the styled name, that is, without the padding that
  left-justifies it.
\<close>

theorem documentation_column_is_literal:
  "\<exists>f. show_ansi_colors [] = Inr f
       \<and> map doc_column (fg_section f)
           = map (\<lambda>(name, code). [CHR 0x5C, CHR ''0'', CHR ''3'', CHR ''3'', CHR ''[''] @ code @ ''m'')
               (fg_colors f)
       \<and> map doc_column (bg_section f)
           = map (\<lambda>(name, code). [CHR 0x5C, CHR ''0'', CHR ''3'', CHR ''3'', CHR ''[''] @ code @ ''m'')
               (bg_colors f)
       \<and> map doc_column (comb_section f)
           = map (\<lambda>(fg_code, bg_code).
                   [CHR 0x5C, CHR ''0'', CHR ''3'', CHR ''3'', CHR ''['']
                   @ fg_code @ '';'' @ bg_code @ ''m'')
               [(''97'', ''44''), (''33'', ''100''), (''96'', ''45''), (''91'', ''103''),
                (''30'', ''107'')]
       \<and> list_all (\<lambda>l. ESC \<notin> set (plain_tail l) \<and> l \<noteq> [] \<and> of_char (hd l) = (27::nat))
           (fg_section f @ bg_section f @ comb_section f)
       \<and> length (fg_section f) = 16 \<and> length (bg_section f) = 16 \<and> length (comb_section f) = 5"
proof -
  have fg: "map doc_column fg_lines
      = map (\<lambda>(name, code). [CHR 0x5C, CHR ''0'', CHR ''3'', CHR ''3'', CHR ''[''] @ code @ ''m'')
          fg_colors_init"
    by (simp add: fg_lines_def fg_colors_init_def fg_line_doc)
  have bg: "map doc_column bg_lines
      = map (\<lambda>(name, code). [CHR 0x5C, CHR ''0'', CHR ''3'', CHR ''3'', CHR ''[''] @ code @ ''m'')
          bg_colors_init"
    by (simp add: bg_lines_def bg_colors_init_def bg_line_doc)
  have comb: "map doc_column comb_lines
      = map (\<lambda>(fg_code, bg_code).
              [CHR 0x5C, CHR ''0'', CHR ''3'', CHR ''3'', CHR ''['']
              @ fg_code @ '';'' @ bg_code @ ''m'')
          [(''97'', ''44''), (''33'', ''100''), (''96'', ''45''), (''91'', ''103''),
           (''30'', ''107'')]"
    by (simp add: comb_lines_def comb_line_doc)
  have fg_ok: "list_all (\<lambda>l. ESC \<notin> set (plain_tail l) \<and> l \<noteq> [] \<and> of_char (hd l) = (27::nat))
      fg_lines"
    by (simp add: fg_lines_def fg_colors_init_def fg_line_shape)
  have bg_ok: "list_all (\<lambda>l. ESC \<notin> set (plain_tail l) \<and> l \<noteq> [] \<and> of_char (hd l) = (27::nat))
      bg_lines"
    by (simp add: bg_lines_def bg_colors_init_def bg_line_shape)
  have comb_ok: "list_all (\<lambda>l. ESC \<notin> set (plain_tail l) \<and> l \<noteq> [] \<and> of_char (hd l) = (27::nat))
      comb_lines"
    by (simp add: comb_lines_def comb_line_shape)
  have len: "length fg_lines = 16" "length bg_lines = 16" "length comb_lines = 5"
    by (simp_all add: fg_lines_def bg_lines_def comb_lines_def fg_colors_init_def
        bg_colors_init_def)
  from run_sections obtain f where "show_ansi_colors [] = Inr f"
    "fg_colors f = fg_colors_init" "bg_colors f = bg_colors_init"
    "fg_section f = fg_lines" "bg_section f = bg_lines" "comb_section f = comb_lines"
    by blast
  with fg bg comb fg_ok bg_ok comb_ok len show ?thesis
    by (intro exI [of _ f]) (simp only: list_all_append simp_thms)
qed

text \<open>
  C6. Every foreground line is, byte for byte: the escape sequence of the entry's code,
  the name left-justified to 15 characters, the reset sequence \<open>ESC [0m\<close>, one space,
  the literal escape text left-justified to 10 characters, and \<open> Example text\<close>. Read
  as a terminal reads it, the name column is the text under the entry's code, and the
  reset sequence follows it at once. No name is longer than 15 characters and no
  literal escape text longer than 10, so both columns have exactly that width.
\<close>

theorem foreground_line_layout:
  "\<exists>f. show_ansi_colors [] = Inr f
       \<and> fg_section f
           = map (\<lambda>(name, code).
                   ESC # ''['' @ code @ ''m'' @ ljust name 15 @ ESC # ''[0m'' @ '' ''
                   @ ljust (BSL # ''033['' @ code @ ''m'') 10 @ '' Example text'')
               (fg_colors f)
       \<and> map (\<lambda>l. (fst (sgr_prefix l), styled_text l, closing_sgr l, plain_tail l)) (fg_section f)
           = map (\<lambda>(name, code).
                   ([code], ljust name 15, [''0''],
                    '' '' @ ljust (BSL # ''033['' @ code @ ''m'') 10 @ '' Example text''))
               (fg_colors f)
       \<and> list_all (\<lambda>(name, code).
                     length (ljust name 15) = 15 \<and> take (length name) (ljust name 15) = name
                     \<and> length (ljust (BSL # ''033['' @ code @ ''m'') 10) = 10)
           (fg_colors f)
       \<and> length (fg_section f) = 16"
proof -
  have bytes: "fg_lines
      = map (\<lambda>(name, code).
              ESC # ''['' @ code @ ''m'' @ ljust name 15 @ ESC # ''[0m'' @ '' ''
              @ ljust (BSL # ''033['' @ code @ ''m'') 10 @ '' Example text'')
          fg_colors_init"
    by (simp add: fg_lines_def fg_line_def)
  have views: "map (\<lambda>l. (fst (sgr_prefix l), styled_text l, closing_sgr l, plain_tail l)) fg_lines
      = map (\<lambda>(name, code).
              ([code], ljust name 15, [''0''],
               '' '' @ ljust (BSL # ''033['' @ code @ ''m'') 10 @ '' Example text''))
          fg_colors_init"
    by (simp add: fg_lines_def fg_colors_init_def fg_line_sgr fg_line_styled fg_line_closing
        fg_line_tail)
  have widths: "list_all (\<lambda>(name, code).
                     length (ljust name 15) = 15 \<and> take (length name) (ljust name 15) = name
                     \<and> length (ljust (BSL # ''033['' @ code @ ''m'') 10) = 10)
      fg_colors_init"
    by (simp add: fg_colors_init_def ljust_length ljust_take)
  have len: "length fg_lines = 16"
    by (simp add: fg_lines_def fg_colors_init_def)
  from run_sections obtain f where "show_ansi_colors [] = Inr f"
    "fg_colors f = fg_colors_init" "fg_section f = fg_lines"
    by blast
  with bytes views widths len show ?thesis
    by (intro exI [of _ f]) (simp only: simp_thms)
qed

text \<open>
  C9. On every combination line the styled label is the foreground name, \<open> on \<close>, and
  the background name left-justified to 25 characters: only the background name is
  padded, so the label is as wide as the foreground name plus 4 plus 25 characters and
  the widths differ from line to line. The documentation column of these lines is
  left-justified to 15 characters (the single-colour sections use 10).
\<close>

theorem combination_line_layout:
  "\<exists>f. show_ansi_colors [] = Inr f
       \<and> map (\<lambda>l. (styled_text l, plain_tail l)) (comb_section f)
           = map (\<lambda>((fg_name, bg_name), (fg_code, bg_code)).
                   (fg_name @ '' on '' @ ljust bg_name 25,
                    '' '' @ ljust (BSL # ''033['' @ fg_code @ '';'' @ bg_code @ ''m'') 15
                    @ '' Example text''))
               (zip combinations
                  [(''97'', ''44''), (''33'', ''100''), (''96'', ''45''), (''91'', ''103''),
                   (''30'', ''107'')])
       \<and> map (\<lambda>l. length (styled_text l)) (comb_section f)
           = map (\<lambda>(fg_name, bg_name). length fg_name + 4 + 25) combinations
       \<and> map (\<lambda>l. length (styled_text l)) (comb_section f) = [41, 35, 40, 39, 34]
       \<and> map (\<lambda>l. length (plain_tail l)) (comb_section f) = replicate 5 (1 + 15 + 13)
       \<and> map (\<lambda>l. length (doc_column l)) (comb_section f) = [11, 12, 11, 12, 12]"
proof -
  have views: "map (\<lambda>l. (styled_text l, plain_tail l)) comb_lines
      = map (\<lambda>((fg_name, bg_name), (fg_code, bg_code)).
              (fg_name @ '' on '' @ ljust bg_name 25,
               '' '' @ ljust (BSL # ''033['' @ fg_code @ '';'' @ bg_code @ ''m'') 15
               @ '' Example text''))
          (zip combinations
             [(''97'', ''44''), (''33'', ''100''), (''96'', ''45''), (''91'', ''103''),
              (''30'', ''107'')])"
    by (simp add: comb_lines_def combinations_def comb_line_styled comb_line_tail)
  have label: "map (\<lambda>l. length (styled_text l)) comb_lines
      = map (\<lambda>(fg_name, bg_name). length fg_name + 4 + 25) combinations"
    by (simp add: comb_lines_def combinations_def comb_line_styled ljust_length)
  have label': "map (\<lambda>l. length (styled_text l)) comb_lines = [41, 35, 40, 39, 34]"
    by (simp add: comb_lines_def comb_line_styled ljust_length)
  have tail: "map (\<lambda>l. length (plain_tail l)) comb_lines = replicate 5 (1 + 15 + 13)"
    by (simp add: comb_lines_def comb_line_tail ljust_length numeral_eq_Suc)
  have doc: "map (\<lambda>l. length (doc_column l)) comb_lines = [11, 12, 11, 12, 12]"
    by (simp add: comb_lines_def comb_line_doc)
  from run_sections obtain f where "show_ansi_colors [] = Inr f" "comb_section f = comb_lines"
    by blast
  with views label label' tail doc show ?thesis
    by (intro exI [of _ f]) (simp only: simp_thms)
qed

text \<open>
  C10. Every background line opens with two separate escape sequences, first the
  contrast text colour and then the background code, never one sequence with the two
  codes joined by a semicolon; the documentation column of the line shows the
  background code alone.
\<close>

theorem background_line_two_sequences:
  "\<exists>f. show_ansi_colors [] = Inr f
       \<and> bg_section f
           = map (\<lambda>(name, code).
                   (ESC # ''['' @ text_color code @ ''m'') @ (ESC # ''['' @ code @ ''m'')
                   @ ljust name 15 @ ESC # ''[0m'' @ '' ''
                   @ ljust (BSL # ''033['' @ code @ ''m'') 10 @ '' Example text'')
               (bg_colors f)
       \<and> map (\<lambda>l. (fst (sgr_prefix l), doc_column l)) (bg_section f)
           = map (\<lambda>(name, code). ([text_color code, code], BSL # ''033['' @ code @ ''m''))
               (bg_colors f)
       \<and> list_all (\<lambda>l. length (fst (sgr_prefix l)) = 2
                       \<and> list_all (\<lambda>p. CHR '';'' \<notin> set p) (fst (sgr_prefix l))
                       \<and> CHR '';'' \<notin> set (doc_column l))
           (bg_section f)
       \<and> length (bg_section f) = 16"
proof -
  have bytes: "bg_lines
      = map (\<lambda>(name, code).
              (ESC # ''['' @ text_color code @ ''m'') @ (ESC # ''['' @ code @ ''m'')
              @ ljust name 15 @ ESC # ''[0m'' @ '' ''
              @ ljust (BSL # ''033['' @ code @ ''m'') 10 @ '' Example text'')
          bg_colors_init"
    by (simp add: bg_lines_def bg_line_def)
  have views: "map (\<lambda>l. (fst (sgr_prefix l), doc_column l)) bg_lines
      = map (\<lambda>(name, code). ([text_color code, code], BSL # ''033['' @ code @ ''m''))
          bg_colors_init"
    by (simp add: bg_lines_def bg_colors_init_def bg_line_sgr bg_line_doc)
  have two: "list_all (\<lambda>l. length (fst (sgr_prefix l)) = 2
                       \<and> list_all (\<lambda>p. CHR '';'' \<notin> set p) (fst (sgr_prefix l))
                       \<and> CHR '';'' \<notin> set (doc_column l))
      bg_lines"
    by (simp add: bg_lines_def bg_colors_init_def bg_line_sgr bg_line_doc text_color_def)
  have len: "length bg_lines = 16"
    by (simp add: bg_lines_def bg_colors_init_def)
  from run_sections obtain f where "show_ansi_colors [] = Inr f"
    "bg_colors f = bg_colors_init" "bg_section f = bg_lines"
    by blast
  with bytes views two len show ?thesis
    by (intro exI [of _ f]) (simp only: simp_thms)
qed

subsection \<open>The tables across the statements of the body\<close>

lemma py_print_tables:
  "fg_colors (py_print s f) = fg_colors f \<and> bg_colors (py_print s f) = bg_colors f"
  by (simp add: py_print_def)

lemma stmt_keeps_tables:
  assumes "s \<in> set body" and "fg_colors f = fg_colors_init" and "bg_colors f = bg_colors_init"
  shows "\<exists>f'. s f = Inr f' \<and> fg_colors f' = fg_colors_init \<and> bg_colors f' = bg_colors_init"
  using assms unfolding body_def
  by (auto simp add: pure_stmt_def py_print_def fg_loop_eq bg_loop_eq comb_loop_eq)

lemma exec_keeps_tables:
  assumes "set ss \<subseteq> set body" and "fg_colors f = fg_colors_init"
    and "bg_colors f = bg_colors_init"
  shows "\<exists>f'. exec ss f = Inr f' \<and> fg_colors f' = fg_colors_init \<and> bg_colors f' = bg_colors_init"
  using assms
proof (induction ss arbitrary: f)
  case Nil
  then show ?case by simp
next
  case (Cons s ss)
  from Cons.prems have "s \<in> set body" by simp
  with Cons.prems obtain g where g: "s f = Inr g" "fg_colors g = fg_colors_init"
    "bg_colors g = bg_colors_init"
    using stmt_keeps_tables by blast
  from Cons.prems have "set ss \<subseteq> set body" by simp
  with g Cons.IH [of g] show ?case by simp
qed

lemma fg_codes_in_range:
  "list_all (\<lambda>(name, code). case nat_of_decimal code of
                               None \<Rightarrow> False
                             | Some n \<Rightarrow> n \<in> set ([30..<38] @ [90..<98]))
     fg_colors_init"
  by (simp add: fg_colors_init_def nat_of_decimal_def)

lemma bg_codes_in_range:
  "list_all (\<lambda>(name, code). case nat_of_decimal code of
                               None \<Rightarrow> False
                             | Some n \<Rightarrow> n \<in> set ([40..<48] @ [100..<108]))
     bg_colors_init"
  by (simp add: bg_colors_init_def nat_of_decimal_def)

text \<open>
  C7. After the initial assignments and after every further statement of the body (the
  first \<open>k\<close> of them, for any \<open>k\<close>), the run has raised nothing and both tables are
  what the initial assignments made them: sixteen entries each, every code a string of
  decimal digits whose value lies in 30 to 37 or 90 to 97 (foreground), 40 to 47 or 100
  to 107 (background). The only primitive that changes the frame, \<open>print\<close>, leaves both
  tables as they are.
\<close>

theorem tables_valid_and_never_mutated:
  "\<exists>f. exec (take k body) (init_frame out) = Inr f
       \<and> fg_colors f = fg_colors (init_frame out) \<and> bg_colors f = bg_colors (init_frame out)
       \<and> length (fg_colors f) = 16 \<and> length (bg_colors f) = 16
       \<and> list_all (\<lambda>(name, code). case nat_of_decimal code of
                                     None \<Rightarrow> False
                                   | Some n \<Rightarrow> n \<in> set ([30..<38] @ [90..<98]))
           (fg_colors f)
       \<and> list_all (\<lambda>(name, code). case nat_of_decimal code of
                                     None \<Rightarrow> False
                                   | Some n \<Rightarrow> n \<in> set ([40..<48] @ [100..<108]))
           (bg_colors f)
       \<and> fg_colors (py_print s g) = fg_colors g \<and> bg_colors (py_print s g) = bg_colors g"
proof -
  have init: "fg_colors (init_frame out) = fg_colors_init"
    "bg_colors (init_frame out) = bg_colors_init"
    by (simp_all add: init_frame_def)
  have "set (take k body) \<subseteq> set body"
    by (rule set_take_subset)
  then obtain f where f: "exec (take k body) (init_frame out) = Inr f"
    "fg_colors f = fg_colors_init" "bg_colors f = bg_colors_init"
    using exec_keeps_tables init by blast
  have len: "length fg_colors_init = 16" "length bg_colors_init = 16"
    by (simp_all add: fg_colors_init_def bg_colors_init_def)
  from f init len fg_codes_in_range bg_codes_in_range py_print_tables [of s g]
  show ?thesis
    by (intro exI [of _ f]) (simp only: simp_thms)
qed

end
